theory Spec2Isabelle
  imports Main
begin

section \<open>Values that cross the pipe\<close>

text \<open>
  The pipe stores and returns values of TypeScript type \<^verbatim>\<open>unknown\<close>. They are modelled
  by a datatype of JavaScript values: the two absence values, booleans, numbers (the
  finite ones as integers, and \<^verbatim>\<open>NaN\<close>, the one number that is not strictly equal
  to itself), strings, and objects, which are compared by their identity.
\<close>

datatype jsval =
    JSUndefined
  | JSNull
  | JSBool bool
  | JSNumber int
  | JSNaN
  | JSString string
  | JSObject nat

text \<open>The host language's strict equality \<^verbatim>\<open>===\<close>.\<close>

definition strict_eq :: "jsval \<Rightarrow> jsval \<Rightarrow> bool" where
  "strict_eq a b = (a \<noteq> JSNaN \<and> a = b)"

text \<open>
  The argument of \<^verbatim>\<open>transform\<close> has type
  \<^verbatim>\<open>ObservableInput<T> | null | undefined\<close>. An observable input is an object; the
  pipe and the engine never look inside it, so it is represented by its identity.
\<close>

datatype potentialObservable =
    PNull
  | PUndefined
  | ObservableInput nat

section \<open>The interface between the pipe and createCdAware\<close>

text \<open>
  \<^verbatim>\<open>createCdAware\<close> and \<^verbatim>\<open>createRender\<close> are imported from
  \<^verbatim>\<open>../core/cd-aware\<close>; the pipe hands \<^verbatim>\<open>createCdAware\<close> a configuration of four
  callbacks (\<^verbatim>\<open>render\<close>, \<^verbatim>\<open>updateViewContextObserver\<close>, \<^verbatim>\<open>resetContextObserver\<close>,
  \<^verbatim>\<open>errorHandler\<close>) and keeps the object it returns. The field \<^verbatim>\<open>renderedValue\<close> is
  private, so the engine can reach the pipe only by invoking these callbacks. One engine
  call is therefore a function from the engine's state to the list of callbacks it
  invoked, in order, and its new state. The pipe is stated for an arbitrary engine of
  this shape: the type variable \<open>'e\<close> is the engine's state.
\<close>

datatype callback =
    ResetContext
  | UpdateViewContext jsval
  | Render
  | HandleError jsval

record 'e CdAware =
  nextPotentialObservable :: "potentialObservable \<Rightarrow> 'e \<Rightarrow> callback list \<times> 'e"
  subscribe :: "'e \<Rightarrow> 'e"
  unsubscribe :: "'e \<Rightarrow> 'e"

section \<open>PushPipe\<close>

text \<open>
  The state of one pipe instance: its field \<^verbatim>\<open>renderedValue\<close>, the state of the engine
  behind \<^verbatim>\<open>this.cdAware\<close> and \<^verbatim>\<open>this.subscription\<close>, and what the two injected
  collaborators have received so far: the number of calls of the \<^verbatim>\<open>render\<close> function
  and the values passed to \<^verbatim>\<open>errorHandler.handleError\<close>.
\<close>

record 'e PushPipe =
  renderedValue :: jsval
  cdAware :: 'e
  renderCalls :: nat
  errorHandler :: "jsval list"

text \<open>\<^verbatim>\<open>resetContextObserver = { next: () => (this.renderedValue = undefined) }\<close>\<close>

definition resetContextObserver_next :: "'e PushPipe \<Rightarrow> 'e PushPipe" where
  "resetContextObserver_next p = p\<lparr>renderedValue := JSUndefined\<rparr>"

text \<open>\<^verbatim>\<open>updateViewContextObserver = { next: (value) => (this.renderedValue = value) }\<close>\<close>

definition updateViewContextObserver_next :: "jsval \<Rightarrow> 'e PushPipe \<Rightarrow> 'e PushPipe" where
  "updateViewContextObserver_next v p = p\<lparr>renderedValue := v\<rparr>"

text \<open>What each callback of the configuration does when the engine invokes it.\<close>

fun invoke :: "callback \<Rightarrow> 'e PushPipe \<Rightarrow> 'e PushPipe" where
  "invoke ResetContext p = resetContextObserver_next p"
| "invoke (UpdateViewContext v) p = updateViewContextObserver_next v p"
| "invoke Render p = p\<lparr>renderCalls := Suc (renderCalls p)\<rparr>"
| "invoke (HandleError err) p = p\<lparr>errorHandler := errorHandler p @ [err]\<rparr>"

fun invokeAll :: "callback list \<Rightarrow> 'e PushPipe \<Rightarrow> 'e PushPipe" where
  "invokeAll [] p = p"
| "invokeAll (cb # cbs) p = invokeAll cbs (invoke cb p)"

text \<open>
  The constructor: \<^verbatim>\<open>renderedValue\<close> has no initialiser, so it reads as
  \<^verbatim>\<open>undefined\<close>; the engine \<open>e0\<close> that \<^verbatim>\<open>createCdAware\<close> returned is subscribed to at
  once.
\<close>

definition PushPipe_constructor :: "'e CdAware \<Rightarrow> 'e \<Rightarrow> 'e PushPipe" where
  "PushPipe_constructor c e0 =
     \<lparr>renderedValue = JSUndefined, cdAware = subscribe c e0, renderCalls = 0, errorHandler = []\<rparr>"

text \<open>
  \<^verbatim>\<open>transform\<close>: pass the argument to the engine, whatever it is, then return the field.
  The callbacks the engine invoked during the call have run when it returns.
\<close>

definition transform ::
  "'e CdAware \<Rightarrow> potentialObservable \<Rightarrow> 'e PushPipe \<Rightarrow> jsval \<times> 'e PushPipe" where
  "transform c potential p =
     (case nextPotentialObservable c potential (cdAware p) of
        (cbs, e') \<Rightarrow>
          (let p' = invokeAll cbs (p\<lparr>cdAware := e'\<rparr>) in (renderedValue p', p')))"

text \<open>\<^verbatim>\<open>ngOnDestroy\<close>: \<^verbatim>\<open>this.subscription.unsubscribe()\<close>.\<close>

definition ngOnDestroy :: "'e CdAware \<Rightarrow> 'e PushPipe \<Rightarrow> 'e PushPipe" where
  "ngOnDestroy c p = p\<lparr>cdAware := unsubscribe c (cdAware p)\<rparr>"

text \<open>
  An engine that does nothing but record the arguments it is called with, in order. It
  stands in for \<^verbatim>\<open>this.cdAware\<close> where a statement is about what the pipe itself passes
  on, as a spy does in a unit test.
\<close>

definition recordingCdAware :: "(potentialObservable list) CdAware" where
  "recordingCdAware =
     \<lparr>nextPotentialObservable = (\<lambda>potential seen. ([], seen @ [potential])),
      subscribe = (\<lambda>seen. seen),
      unsubscribe = (\<lambda>seen. seen)\<rparr>"

text \<open>
  The value the two observers leave in \<^verbatim>\<open>renderedValue\<close> after a sequence of callbacks:
  the last write wins, and \<^verbatim>\<open>render\<close> and the error handler write nothing.
\<close>

fun leftBehind :: "callback list \<Rightarrow> jsval \<Rightarrow> jsval" where
  "leftBehind [] r = r"
| "leftBehind (ResetContext # cbs) r = leftBehind cbs JSUndefined"
| "leftBehind (UpdateViewContext v # cbs) r = leftBehind cbs v"
| "leftBehind (Render # cbs) r = leftBehind cbs r"
| "leftBehind (HandleError err # cbs) r = leftBehind cbs r"

fun writesValue :: "callback \<Rightarrow> bool" where
  "writesValue ResetContext = True"
| "writesValue (UpdateViewContext v) = True"
| "writesValue Render = False"
| "writesValue (HandleError err) = False"

text \<open>
  A callback of a trace in which the only value stored is \<open>v\<close>: an update with \<open>v\<close>, a
  render request or an error report, but no reset and no update with another value. Such
  a trace is what reaches the pipe while a source emits \<open>v\<close> and nothing else, whichever
  emissions the engine forwards and however it requests renders around them.
\<close>

fun storesOnly :: "jsval \<Rightarrow> callback \<Rightarrow> bool" where
  "storesOnly v ResetContext = False"
| "storesOnly v (UpdateViewContext u) = (u = v)"
| "storesOnly v Render = True"
| "storesOnly v (HandleError err) = True"

section \<open>The engine behind createCdAware\<close>

text \<open>
  The file that defines \<^verbatim>\<open>createCdAware\<close> is not part of the sources at hand. The
  definitions of this section follow the specification's description of the component it
  calls SourceSwitcher (its section 4.1, steps 1 to 7, and \<^verbatim>\<open>dispose\<close>); each says so.
  Emissions are events of their own: the specification's section 5 has control return
  from \<^verbatim>\<open>setSource\<close> before any emission arrives.
\<close>

text \<open>
  Modelled from the spec: the VisibleValue of the data model, which \<^verbatim>\<open>createCdAware\<close>
  would keep; \<open>Unset\<close> is the sentinel, distinct from every emitted value.
\<close>

datatype visible =
    Unset
  | Value jsval

text \<open>
  Modelled from the spec: the state of the SourceSwitcher inside \<^verbatim>\<open>createCdAware\<close>: the
  source the ActiveSubscription is attached to, if any, the VisibleValue, and whether
  \<^verbatim>\<open>dispose\<close> has run.
\<close>

record SourceSwitcher =
  activeSubscription :: "nat option"
  visibleValue :: visible
  disposed :: bool

text \<open>
  Modelled from the spec: the engine \<^verbatim>\<open>createCdAware\<close> returns, before any source is
  set.
\<close>

definition createCdAware :: SourceSwitcher where
  "createCdAware = \<lparr>activeSubscription = None, visibleValue = Unset, disposed = False\<rparr>"

text \<open>
  Modelled from the spec: \<^verbatim>\<open>setSource\<close> of \<^verbatim>\<open>createCdAware\<close>, steps 1 to 4. Release the
  active subscription; emit the reset; stop for \<^verbatim>\<open>null\<close> and \<^verbatim>\<open>undefined\<close>; otherwise
  attach to the source. The specification has a render request follow a reset "if the
  reset must blank the view", which is read as: a value was visible. After \<^verbatim>\<open>dispose\<close>
  the call does nothing.
\<close>

definition setSource ::
  "potentialObservable \<Rightarrow> SourceSwitcher \<Rightarrow> callback list \<times> SourceSwitcher" where
  "setSource source e =
     (if disposed e then ([], e)
      else
        (let released = e\<lparr>activeSubscription := None\<rparr>;
             blank = (if visibleValue released = Unset then [] else [Render]);
             reset = released\<lparr>visibleValue := Unset\<rparr>
         in (case source of
               PNull \<Rightarrow> (ResetContext # blank, reset)
             | PUndefined \<Rightarrow> (ResetContext # blank, reset)
             | ObservableInput i \<Rightarrow>
                 (ResetContext # blank, reset\<lparr>activeSubscription := Some i\<rparr>))))"

text \<open>What a source tells its subscriber.\<close>

datatype notification =
    Next jsval
  | Error jsval
  | Complete

text \<open>
  Modelled from the spec: the distinct-until-changed test of step 5 in
  \<^verbatim>\<open>createCdAware\<close>: the emitted value is not strictly equal to the current VisibleValue.
\<close>

definition differs :: "visible \<Rightarrow> jsval \<Rightarrow> bool" where
  "differs shown v = (case shown of Unset \<Rightarrow> True | Value u \<Rightarrow> \<not> strict_eq v u)"

text \<open>
  Modelled from the spec: what \<^verbatim>\<open>createCdAware\<close> does when source \<open>i\<close> produces a
  notification, steps 5 to 7. A notification of a source the engine is not attached to is
  discarded. A distinct value becomes the VisibleValue and is forwarded with a render
  request; an equal one is suppressed. An error goes to the error sink and the
  subscription is released, the VisibleValue kept. Completion releases the subscription.
\<close>

definition onNotification ::
  "nat \<Rightarrow> notification \<Rightarrow> SourceSwitcher \<Rightarrow> callback list \<times> SourceSwitcher" where
  "onNotification i n e =
     (if disposed e \<or> activeSubscription e \<noteq> Some i then ([], e)
      else
        (case n of
           Next v \<Rightarrow>
             (if differs (visibleValue e) v
              then ([UpdateViewContext v, Render], e\<lparr>visibleValue := Value v\<rparr>)
              else ([], e))
         | Error err \<Rightarrow> ([HandleError err], e\<lparr>activeSubscription := None\<rparr>)
         | Complete \<Rightarrow> ([], e\<lparr>activeSubscription := None\<rparr>)))"

text \<open>
  Modelled from the spec: \<^verbatim>\<open>dispose\<close> of \<^verbatim>\<open>createCdAware\<close>, reached through the
  subscription the constructor keeps: release the active subscription; every later
  operation is a no-op.
\<close>

definition dispose :: "SourceSwitcher \<Rightarrow> SourceSwitcher" where
  "dispose e = e\<lparr>activeSubscription := None, disposed := True\<rparr>"

text \<open>
  Modelled from the spec: the object \<^verbatim>\<open>createCdAware\<close> returns. The specification's
  engine works from its creation on, so subscribing changes nothing.
\<close>

definition sourceSwitcher :: "SourceSwitcher CdAware" where
  "sourceSwitcher =
     \<lparr>nextPotentialObservable = setSource, subscribe = (\<lambda>e. e), unsubscribe = dispose\<rparr>"

text \<open>
  Modelled from the spec: the emissions of source \<open>i\<close>, in order, as \<^verbatim>\<open>createCdAware\<close>
  handles them: the callbacks invoked and the engine's final state.
\<close>

fun emissions ::
  "nat \<Rightarrow> jsval list \<Rightarrow> SourceSwitcher \<Rightarrow> callback list \<times> SourceSwitcher" where
  "emissions i [] e = ([], e)"
| "emissions i (v # vs) e =
     (case onNotification i (Next v) e of
        (cbs, e1) \<Rightarrow> (case emissions i vs e1 of (cbs', e2) \<Rightarrow> (cbs @ cbs', e2)))"

section \<open>The pipe on the specified engine\<close>

text \<open>Source \<open>i\<close> produces a notification: the engine handles it and its callbacks run.\<close>

definition notify ::
  "nat \<Rightarrow> notification \<Rightarrow> SourceSwitcher PushPipe \<Rightarrow> SourceSwitcher PushPipe" where
  "notify i n p =
     (case onNotification i n (cdAware p) of
        (cbs, e') \<Rightarrow> invokeAll cbs (p\<lparr>cdAware := e'\<rparr>))"

fun emit :: "nat \<Rightarrow> jsval list \<Rightarrow> SourceSwitcher PushPipe \<Rightarrow> SourceSwitcher PushPipe" where
  "emit i [] p = p"
| "emit i (v # vs) p = emit i vs (notify i (Next v) p)"

text \<open>What can happen to a pipe: a render pass, a notification of a source, its destruction.\<close>

datatype operation =
    Transform potentialObservable
  | Notify nat notification
  | NgOnDestroy

fun perform :: "operation \<Rightarrow> SourceSwitcher PushPipe \<Rightarrow> SourceSwitcher PushPipe" where
  "perform (Transform potential) p = snd (transform sourceSwitcher potential p)"
| "perform (Notify i n) p = notify i n p"
| "perform NgOnDestroy p = ngOnDestroy sourceSwitcher p"

fun performAll :: "operation list \<Rightarrow> SourceSwitcher PushPipe \<Rightarrow> SourceSwitcher PushPipe" where
  "performAll [] p = p"
| "performAll (op # ops) p = performAll ops (perform op p)"

text \<open>
  The specification's words for the distinct-until-changed property: one value per
  maximal run of consecutive values that are strictly equal.
\<close>

fun runHeads :: "jsval list \<Rightarrow> jsval list" where
  "runHeads [] = []"
| "runHeads [v] = [v]"
| "runHeads (u # v # vs) =
     (if strict_eq v u then runHeads (v # vs) else u # runHeads (v # vs))"

text \<open>The render requests among the callbacks of a trace.\<close>

definition renderRequests :: "callback list \<Rightarrow> nat" where
  "renderRequests cbs = length (filter (\<lambda>cb. cb = Render) cbs)"

text \<open>
  The trace in which each of the given values is forwarded once, in order: the value is
  stored, then a render is requested.
\<close>

definition forwarded :: "jsval list \<Rightarrow> callback list" where
  "forwarded vs = concat (map (\<lambda>v. [UpdateViewContext v, Render]) vs)"

section \<open>Properties of the observers\<close>

lemma invokeAll_renderedValue:
  "renderedValue (invokeAll cbs p) = leftBehind cbs (renderedValue p)"
proof (induction cbs arbitrary: p)
  case Nil
  show ?case by simp
next
  case (Cons cb cbs)
  show ?case
    by (cases cb)
      (simp_all add: Cons.IH resetContextObserver_next_def updateViewContextObserver_next_def)
qed

lemma invokeAll_cdAware: "cdAware (invokeAll cbs p) = cdAware p"
proof (induction cbs arbitrary: p)
  case Nil
  show ?case by simp
next
  case (Cons cb cbs)
  show ?case
    by (cases cb)
      (simp_all add: Cons.IH resetContextObserver_next_def updateViewContextObserver_next_def)
qed

lemma leftBehind_no_write:
  "list_all (\<lambda>cb. \<not> writesValue cb) cbs \<Longrightarrow> leftBehind cbs r = r"
proof (induction cbs arbitrary: r)
  case Nil
  show ?case by simp
next
  case (Cons cb cbs)
  then show ?case by (cases cb) simp_all
qed

lemma leftBehind_append: "leftBehind (cbs @ rest) r = leftBehind rest (leftBehind cbs r)"
  by (induction cbs r rule: leftBehind.induct) simp_all

lemma leftBehind_storesOnly: "list_all (storesOnly v) cbs \<Longrightarrow> leftBehind cbs v = v"
proof (induction cbs)
  case Nil
  show ?case by simp
next
  case (Cons cb cbs)
  then show ?case by (cases cb) simp_all
qed

text \<open>
  C1, as amended. The value a reset stores as the VisibleValue, the field
  \<^verbatim>\<open>renderedValue\<close>, is the JavaScript value \<^verbatim>\<open>undefined\<close>, and it is not distinct from
  every emitted value: an emission of \<^verbatim>\<open>undefined\<close> that the engine forwards stores the
  same value. So for every engine, after a reset and any trace in which a source emits
  \<^verbatim>\<open>undefined\<close> and nothing else, \<^verbatim>\<open>renderedValue\<close> is what it was after the reset alone,
  and a call of \<^verbatim>\<open>transform\<close> during which the engine resets returns \<^verbatim>\<open>undefined\<close> whether
  or not the source has emitted \<^verbatim>\<open>undefined\<close> since. Only \<^verbatim>\<open>renderedValue\<close> coincides: the
  pipe is not the same after the emission, since the render request that comes with a
  forwarded emission is counted.
\<close>

theorem reset_value_is_an_emitted_value:
  "renderedValue (resetContextObserver_next p) = JSUndefined
   \<and> renderedValue (updateViewContextObserver_next JSUndefined p) = JSUndefined
   \<and> (list_all (storesOnly JSUndefined) emission \<longrightarrow>
        renderedValue (invokeAll emission (resetContextObserver_next p))
          = renderedValue (resetContextObserver_next p))
   \<and> (list_all (storesOnly JSUndefined) emission \<longrightarrow>
        fst (nextPotentialObservable c potential (cdAware p)) = before @ ResetContext # emission \<longrightarrow>
        fst (transform c potential p) = JSUndefined)
   \<and> renderCalls (invokeAll [UpdateViewContext JSUndefined, Render] p) = Suc (renderCalls p)
   \<and> invokeAll [UpdateViewContext JSUndefined, Render] p \<noteq> p"
proof -
  have reset: "renderedValue (resetContextObserver_next p) = JSUndefined"
    by (simp add: resetContextObserver_next_def)
  have update: "renderedValue (updateViewContextObserver_next JSUndefined p) = JSUndefined"
    by (simp add: updateViewContextObserver_next_def)
  have kept: "renderedValue (invokeAll emission (resetContextObserver_next p))
      = renderedValue (resetContextObserver_next p)"
    if "list_all (storesOnly JSUndefined) emission"
    using that by (simp add: invokeAll_renderedValue reset leftBehind_storesOnly)
  have returned: "fst (transform c potential p) = JSUndefined"
    if "list_all (storesOnly JSUndefined) emission"
      and "fst (nextPotentialObservable c potential (cdAware p)) = before @ ResetContext # emission"
  proof -
    have "fst (transform c potential p)
        = leftBehind (fst (nextPotentialObservable c potential (cdAware p))) (renderedValue p)"
      by (simp add: transform_def Let_def invokeAll_renderedValue split: prod.splits)
    also have "\<dots> = leftBehind (ResetContext # emission) (leftBehind before (renderedValue p))"
      by (simp only: that(2) leftBehind_append)
    also have "\<dots> = JSUndefined"
      using that(1) by (simp add: leftBehind_storesOnly)
    finally show ?thesis .
  qed
  have counted: "renderCalls (invokeAll [UpdateViewContext JSUndefined, Render] p)
      = Suc (renderCalls p)"
    by (simp add: updateViewContextObserver_next_def)
  then have changed: "invokeAll [UpdateViewContext JSUndefined, Render] p \<noteq> p"
    by (metis n_not_Suc_n)
  from reset update kept returned counted changed show ?thesis by blast
qed

theorem reset_value_is_an_emitted_value_witness:
  "renderedValue (resetContextObserver_next
       \<lparr>renderedValue = JSNumber 7, cdAware = (), renderCalls = 1, errorHandler = []\<rparr>)
     = JSUndefined
   \<and> renderedValue (updateViewContextObserver_next JSUndefined
       \<lparr>renderedValue = JSNumber 7, cdAware = (), renderCalls = 1, errorHandler = []\<rparr>)
     = JSUndefined
   \<and> list_all (storesOnly JSUndefined) [UpdateViewContext JSUndefined, Render]
   \<and> renderedValue (invokeAll [UpdateViewContext JSUndefined, Render]
       (resetContextObserver_next
          \<lparr>renderedValue = JSNumber 7, cdAware = (), renderCalls = 1, errorHandler = []\<rparr>))
     = JSUndefined
   \<and> fst (nextPotentialObservable
          \<lparr>nextPotentialObservable =
             (\<lambda>potential e.
                ([ResetContext, Render, UpdateViewContext JSUndefined, Render], e)),
           subscribe = (\<lambda>e. e), unsubscribe = (\<lambda>e. e)\<rparr>
          (ObservableInput 1) ())
     = [] @ ResetContext # [Render, UpdateViewContext JSUndefined, Render]
   \<and> fst (transform
          \<lparr>nextPotentialObservable =
             (\<lambda>potential e.
                ([ResetContext, Render, UpdateViewContext JSUndefined, Render], e)),
           subscribe = (\<lambda>e. e), unsubscribe = (\<lambda>e. e)\<rparr>
          (ObservableInput 1)
          \<lparr>renderedValue = JSNumber 7, cdAware = (), renderCalls = 1, errorHandler = []\<rparr>)
     = JSUndefined
   \<and> renderCalls (invokeAll [UpdateViewContext JSUndefined, Render]
       \<lparr>renderedValue = JSNumber 7, cdAware = (), renderCalls = 1, errorHandler = []\<rparr>)
     = 2"
  using reset_value_is_an_emitted_value
    [of "\<lparr>renderedValue = JSNumber 7, cdAware = (), renderCalls = 1, errorHandler = []\<rparr>"
        "[UpdateViewContext JSUndefined, Render]"]
    reset_value_is_an_emitted_value
    [of "\<lparr>renderedValue = JSNumber 7, cdAware = (), renderCalls = 1, errorHandler = []\<rparr>"
        "[Render, UpdateViewContext JSUndefined, Render]"
        "\<lparr>nextPotentialObservable =
             (\<lambda>potential e.
                ([ResetContext, Render, UpdateViewContext JSUndefined, Render], e)),
           subscribe = (\<lambda>e. e), unsubscribe = (\<lambda>e. e)\<rparr>"
        "ObservableInput 1" "[]"]
  by (simp add: resetContextObserver_next_def updateViewContextObserver_next_def)

text \<open>
  C1 as the specification states it has the value stored as the VisibleValue after a
  reset distinct from every emitted value, so that the VisibleValue after a source's
  emission of \<^verbatim>\<open>undefined\<close> differs from the VisibleValue while nothing has been emitted
  since the reset. On a pipe that showed the number 7, the engine resets and requests the
  blanking render, and then forwards the source's emission of \<^verbatim>\<open>undefined\<close> with its render
  request: \<^verbatim>\<open>renderedValue\<close> after the emission is \<^verbatim>\<open>renderedValue\<close> after the reset.
\<close>

theorem sentinel_not_distinct_counterexample:
  "\<not> (renderedValue
         (invokeAll [UpdateViewContext JSUndefined, Render]
            (invokeAll [ResetContext, Render]
               \<lparr>renderedValue = JSNumber 7, cdAware = (), renderCalls = 1,
                errorHandler = []\<rparr>))
      \<noteq> renderedValue
         (invokeAll [ResetContext, Render]
            \<lparr>renderedValue = JSNumber 7, cdAware = (), renderCalls = 1,
             errorHandler = []\<rparr>))"
  by (simp add: resetContextObserver_next_def updateViewContextObserver_next_def)

section \<open>What transform does with its argument and its field\<close>

lemma transform_cdAware:
  "cdAware (snd (transform c potential p)) = snd (nextPotentialObservable c potential (cdAware p))"
  by (simp add: transform_def invokeAll_cdAware Let_def split: prod.splits)

lemma recording_sees_every_argument:
  "cdAware (foldl (\<lambda>q a. snd (transform recordingCdAware a q)) p args) = cdAware p @ args"
proof (induction args arbitrary: p)
  case Nil
  show ?case by simp
next
  case (Cons a args)
  have "cdAware (snd (transform recordingCdAware a p)) = cdAware p @ [a]"
    by (simp add: transform_cdAware recordingCdAware_def)
  then show ?case by (simp add: Cons.IH)
qed

text \<open>
  C3, as amended. \<^verbatim>\<open>transform\<close> calls \<^verbatim>\<open>nextPotentialObservable\<close> on every render pass,
  whatever the argument and whatever was supplied before: the pipe keeps no record of the
  previous source and compares nothing. For every engine, the engine's state after a call
  is the state its \<^verbatim>\<open>nextPotentialObservable\<close> returns, also when the same argument is
  supplied twice in a row; and an engine that records its arguments has seen every
  argument of every call, in order, repetitions included. An identity short-circuit, if
  there is one, is the engine's.
\<close>

theorem transform_always_reaches_engine:
  "cdAware (snd (transform c potential p)) = snd (nextPotentialObservable c potential (cdAware p))
   \<and> cdAware (snd (transform c potential (snd (transform c potential p))))
       = snd (nextPotentialObservable c potential
               (snd (nextPotentialObservable c potential (cdAware p))))
   \<and> cdAware (foldl (\<lambda>q a. snd (transform recordingCdAware a q)) r args) = cdAware r @ args"
  by (simp add: transform_cdAware recording_sees_every_argument)

theorem transform_always_reaches_engine_witness:
  "cdAware (snd (transform recordingCdAware (ObservableInput 1)
       (snd (transform recordingCdAware (ObservableInput 1)
              (PushPipe_constructor recordingCdAware [])))))
     = [ObservableInput 1, ObservableInput 1]"
  using transform_always_reaches_engine
    [of recordingCdAware "ObservableInput 1" "PushPipe_constructor recordingCdAware []"]
  by (simp add: recordingCdAware_def PushPipe_constructor_def)

text \<open>
  C3 as the specification states it has the second of two calls with the same source
  instance not reach the engine, so that the engine is in the same state after the second
  call as after the first. The recording engine has received the source twice.
\<close>

theorem same_source_counterexample:
  "\<not> (cdAware (snd (transform recordingCdAware (ObservableInput 1)
          (snd (transform recordingCdAware (ObservableInput 1)
                 (PushPipe_constructor recordingCdAware [])))))
       = cdAware (snd (transform recordingCdAware (ObservableInput 1)
                 (PushPipe_constructor recordingCdAware []))))"
  by (simp add: transform_def recordingCdAware_def PushPipe_constructor_def)

text \<open>
  C10. \<^verbatim>\<open>transform\<close> never writes \<^verbatim>\<open>renderedValue\<close> itself. For every engine and every
  call, the pipe after the call is the pipe before it with the engine's new state and the
  engine's callbacks run, and the value returned is the one the two observers have left in
  the field when \<^verbatim>\<open>nextPotentialObservable\<close> returns: \<^verbatim>\<open>undefined\<close> after a reset, the
  emitted value after an update, the last write winning. When the engine invoked neither
  observer, the value returned is the field as it was, which on a freshly constructed pipe
  is \<^verbatim>\<open>undefined\<close>.
\<close>

theorem transform_returns_what_observers_left:
  "fst (transform c potential p)
     = leftBehind (fst (nextPotentialObservable c potential (cdAware p))) (renderedValue p)
   \<and> snd (transform c potential p)
     = invokeAll (fst (nextPotentialObservable c potential (cdAware p)))
         (p\<lparr>cdAware := snd (nextPotentialObservable c potential (cdAware p))\<rparr>)
   \<and> renderedValue (snd (transform c potential p)) = fst (transform c potential p)
   \<and> (list_all (\<lambda>cb. \<not> writesValue cb) (fst (nextPotentialObservable c potential (cdAware p)))
        \<longrightarrow> fst (transform c potential p) = renderedValue p)
   \<and> (list_all (\<lambda>cb. \<not> writesValue cb)
          (fst (nextPotentialObservable c potential (cdAware (PushPipe_constructor c e0))))
        \<longrightarrow> fst (transform c potential (PushPipe_constructor c e0)) = JSUndefined)"
proof -
  have ret: "fst (transform c potential q)
     = leftBehind (fst (nextPotentialObservable c potential (cdAware q))) (renderedValue q)" for q
    by (simp add: transform_def Let_def invokeAll_renderedValue split: prod.splits)
  have st: "snd (transform c potential p)
     = invokeAll (fst (nextPotentialObservable c potential (cdAware p)))
         (p\<lparr>cdAware := snd (nextPotentialObservable c potential (cdAware p))\<rparr>)"
    by (simp add: transform_def Let_def split: prod.splits)
  have rv: "renderedValue (snd (transform c potential p)) = fst (transform c potential p)"
    by (simp add: transform_def Let_def split: prod.splits)
  have new: "renderedValue (PushPipe_constructor c e0) = JSUndefined"
    by (simp add: PushPipe_constructor_def)
  have same: "list_all (\<lambda>cb. \<not> writesValue cb)
        (fst (nextPotentialObservable c potential (cdAware q)))
        \<longrightarrow> fst (transform c potential q) = renderedValue q" for q
    by (simp add: ret leftBehind_no_write)
  from ret [of p] st rv same [of p] same [of "PushPipe_constructor c e0"] new
  show ?thesis by simp
qed

theorem transform_returns_what_observers_left_witness:
  "fst (transform
          \<lparr>nextPotentialObservable =
             (\<lambda>potential e. ([ResetContext, Render, UpdateViewContext (JSNumber 5), Render], e)),
           subscribe = (\<lambda>e. e), unsubscribe = (\<lambda>e. e)\<rparr>
          (ObservableInput 1)
          \<lparr>renderedValue = JSString ''before'', cdAware = (), renderCalls = 0,
           errorHandler = []\<rparr>)
     = JSNumber 5
   \<and> list_all (\<lambda>cb. \<not> writesValue cb)
        (fst (nextPotentialObservable recordingCdAware PNull
               (cdAware (PushPipe_constructor recordingCdAware []))))
   \<and> fst (transform recordingCdAware PNull (PushPipe_constructor recordingCdAware []))
       = JSUndefined"
  using transform_returns_what_observers_left
    [of "\<lparr>nextPotentialObservable =
             (\<lambda>potential e. ([ResetContext, Render, UpdateViewContext (JSNumber 5), Render], e)),
           subscribe = (\<lambda>e. e), unsubscribe = (\<lambda>e. e)\<rparr>"
        "ObservableInput 1"
        "\<lparr>renderedValue = JSString ''before'', cdAware = (), renderCalls = 0,
           errorHandler = []\<rparr>" "()"]
    transform_returns_what_observers_left
    [of recordingCdAware PNull "PushPipe_constructor recordingCdAware []" "[]"]
  by (simp add: recordingCdAware_def PushPipe_constructor_def)

section \<open>Distinct values of one source\<close>

lemma strict_eq_same: "strict_eq v u \<Longrightarrow> v = u"
  by (simp add: strict_eq_def)

lemma runHeads_Cons: "runHeads (v # vs) = v # tl (runHeads (v # vs))"
proof (induction vs arbitrary: v)
  case Nil
  show ?case by simp
next
  case (Cons w ws)
  show ?case
  proof (cases "strict_eq w v")
    case True
    then have "w = v" by (rule strict_eq_same)
    with True Cons.IH [of w] show ?thesis by simp
  next
    case False
    then show ?thesis by simp
  qed
qed

lemma emissions_Cons_fst:
  "fst (emissions i (v # vs) e)
     = fst (onNotification i (Next v) e) @ fst (emissions i vs (snd (onNotification i (Next v) e)))"
  by (simp split: prod.splits)

lemma forwarded_Cons: "forwarded (v # vs) = UpdateViewContext v # Render # forwarded vs"
  by (simp add: forwarded_def)

lemma emissions_after_value:
  "\<not> disposed e \<Longrightarrow> activeSubscription e = Some i \<Longrightarrow> visibleValue e = Value u \<Longrightarrow>
   fst (emissions i vs e) = forwarded (tl (runHeads (u # vs)))"
proof (induction vs arbitrary: e u)
  case Nil
  show ?case by (simp add: forwarded_def)
next
  case (Cons v vs)
  show ?case
  proof (cases "strict_eq v u")
    case True
    then have vu: "v = u" by (rule strict_eq_same)
    from Cons.prems True have step: "onNotification i (Next v) e = ([], e)"
      by (simp add: onNotification_def differs_def)
    from Cons.IH [OF Cons.prems] have "fst (emissions i vs e) = forwarded (tl (runHeads (u # vs)))" .
    with step True vu show ?thesis by (simp add: emissions_Cons_fst del: emissions.simps)
  next
    case False
    let ?e1 = "e\<lparr>visibleValue := Value v\<rparr>"
    from Cons.prems False
    have step: "onNotification i (Next v) e = ([UpdateViewContext v, Render], ?e1)"
      by (simp add: onNotification_def differs_def)
    from Cons.prems have "\<not> disposed ?e1" "activeSubscription ?e1 = Some i" "visibleValue ?e1 = Value v"
      by simp_all
    then have rest: "fst (emissions i vs ?e1) = forwarded (tl (runHeads (v # vs)))"
      by (rule Cons.IH)
    have "forwarded (runHeads (v # vs))
        = UpdateViewContext v # Render # forwarded (tl (runHeads (v # vs)))"
      by (subst runHeads_Cons) (simp only: forwarded_Cons)
    with step rest False show ?thesis by (simp add: emissions_Cons_fst del: emissions.simps)
  qed
qed

lemma emissions_after_reset:
  assumes "\<not> disposed e" and "activeSubscription e = Some i" and "visibleValue e = Unset"
  shows "fst (emissions i vs e) = forwarded (runHeads vs)"
proof (cases vs)
  case Nil
  then show ?thesis by (simp add: forwarded_def)
next
  case (Cons v ws)
  let ?e1 = "e\<lparr>visibleValue := Value v\<rparr>"
  from assms have step: "onNotification i (Next v) e = ([UpdateViewContext v, Render], ?e1)"
    by (simp add: onNotification_def differs_def)
  from assms have "\<not> disposed ?e1" "activeSubscription ?e1 = Some i" "visibleValue ?e1 = Value v"
    by simp_all
  then have rest: "fst (emissions i ws ?e1) = forwarded (tl (runHeads (v # ws)))"
    by (rule emissions_after_value)
  have "forwarded (runHeads (v # ws))
      = UpdateViewContext v # Render # forwarded (tl (runHeads (v # ws)))"
    by (subst runHeads_Cons) (simp only: forwarded_Cons)
  with step rest Cons show ?thesis by (simp add: emissions_Cons_fst del: emissions.simps)
qed

lemma renderRequests_forwarded: "renderRequests (forwarded vs) = length vs"
  by (induction vs) (simp_all add: renderRequests_def forwarded_def)

lemma invokeAll_append: "invokeAll (as @ bs) p = invokeAll bs (invokeAll as p)"
  by (induction as arbitrary: p) simp_all

lemma invokeAll_renderCalls: "renderCalls (invokeAll cbs p) = renderCalls p + renderRequests cbs"
proof (induction cbs arbitrary: p)
  case Nil
  show ?case by (simp add: renderRequests_def)
next
  case (Cons cb cbs)
  show ?case
    by (cases cb)
      (simp_all add: Cons.IH renderRequests_def resetContextObserver_next_def
        updateViewContextObserver_next_def)
qed

lemma invoke_set_cdAware: "invoke cb (p\<lparr>cdAware := e\<rparr>) = (invoke cb p)\<lparr>cdAware := e\<rparr>"
  by (cases cb) (simp_all add: resetContextObserver_next_def updateViewContextObserver_next_def)

lemma invokeAll_set_cdAware:
  "invokeAll cbs (p\<lparr>cdAware := e\<rparr>) = (invokeAll cbs p)\<lparr>cdAware := e\<rparr>"
proof (induction cbs arbitrary: p)
  case Nil
  show ?case by simp
next
  case (Cons cb cbs)
  show ?case by (simp only: invokeAll.simps invoke_set_cdAware Cons.IH)
qed

lemma emit_emissions:
  "emit i vs p =
     invokeAll (fst (emissions i vs (cdAware p))) (p\<lparr>cdAware := snd (emissions i vs (cdAware p))\<rparr>)"
proof (induction vs arbitrary: p)
  case Nil
  show ?case by simp
next
  case (Cons v vs)
  show ?case
    by (simp add: Cons.IH notify_def invokeAll_append invokeAll_set_cdAware invokeAll_cdAware
        split: prod.splits)
qed

lemma suppressed:
  "visibleValue (cdAware q) = Value u \<Longrightarrow> strict_eq v u \<Longrightarrow>
   onNotification i (Next v) (cdAware q) = ([], cdAware q) \<and> notify i (Next v) q = q"
  by (simp add: notify_def onNotification_def differs_def)

text \<open>
  C5. Distinct-until-changed, on the specified engine. Let the engine be attached to source
  \<open>i\<close> with the VisibleValue unset, as it is after \<^verbatim>\<open>setSource\<close>, and let the source emit
  \<open>vs\<close>. The callbacks the engine invokes are exactly one update and one render request
  per maximal run of strictly equal consecutive values, in order; so the number of render
  requests, and the number of calls the pipe's \<^verbatim>\<open>render\<close> function receives, is the
  number of runs. At any time, an emission strictly equal to the current VisibleValue
  invokes no callback and leaves the pipe, its VisibleValue included, as it was.
\<close>

theorem distinct_until_changed:
  "\<not> disposed (cdAware p) \<Longrightarrow> activeSubscription (cdAware p) = Some i \<Longrightarrow>
   visibleValue (cdAware p) = Unset \<Longrightarrow>
     fst (emissions i vs (cdAware p)) = forwarded (runHeads vs)
   \<and> renderRequests (fst (emissions i vs (cdAware p))) = length (runHeads vs)
   \<and> renderCalls (emit i vs p) = renderCalls p + length (runHeads vs)
   \<and> (\<forall>q u v. visibleValue (cdAware q) = Value u \<and> strict_eq v u \<longrightarrow>
         fst (onNotification i (Next v) (cdAware q)) = [] \<and> notify i (Next v) q = q)"
proof -
  assume a: "\<not> disposed (cdAware p)" "activeSubscription (cdAware p) = Some i"
    "visibleValue (cdAware p) = Unset"
  have tr: "fst (emissions i vs (cdAware p)) = forwarded (runHeads vs)"
    using a by (rule emissions_after_reset)
  have n: "renderRequests (fst (emissions i vs (cdAware p))) = length (runHeads vs)"
    by (simp add: tr renderRequests_forwarded)
  have rc: "renderCalls (emit i vs p) = renderCalls p + length (runHeads vs)"
    by (simp add: emit_emissions invokeAll_renderCalls n)
  from tr n rc suppressed show ?thesis by simp
qed

theorem distinct_until_changed_witness:
  "\<not> disposed (cdAware (snd (transform sourceSwitcher (ObservableInput 1)
        (PushPipe_constructor sourceSwitcher createCdAware))))
   \<and> activeSubscription (cdAware (snd (transform sourceSwitcher (ObservableInput 1)
        (PushPipe_constructor sourceSwitcher createCdAware)))) = Some 1
   \<and> visibleValue (cdAware (snd (transform sourceSwitcher (ObservableInput 1)
        (PushPipe_constructor sourceSwitcher createCdAware)))) = Unset
   \<and> fst (emissions 1 [JSNumber 1, JSNumber 1, JSNumber 2, JSNumber 2, JSNumber 2, JSNumber 3]
       (cdAware (snd (transform sourceSwitcher (ObservableInput 1)
          (PushPipe_constructor sourceSwitcher createCdAware)))))
     = [UpdateViewContext (JSNumber 1), Render, UpdateViewContext (JSNumber 2), Render,
        UpdateViewContext (JSNumber 3), Render]
   \<and> renderCalls (emit 1 [JSNumber 1, JSNumber 1, JSNumber 2, JSNumber 2, JSNumber 2, JSNumber 3]
       (snd (transform sourceSwitcher (ObservableInput 1)
          (PushPipe_constructor sourceSwitcher createCdAware)))) = 3"
  using distinct_until_changed
    [of "snd (transform sourceSwitcher (ObservableInput 1)
          (PushPipe_constructor sourceSwitcher createCdAware))" 1
        "[JSNumber 1, JSNumber 1, JSNumber 2, JSNumber 2, JSNumber 2, JSNumber 3]"]
  by (simp add: transform_def sourceSwitcher_def PushPipe_constructor_def createCdAware_def
      setSource_def forwarded_def strict_eq_def resetContextObserver_next_def)

section \<open>After ngOnDestroy\<close>

lemma setSource_disposed: "disposed e \<Longrightarrow> setSource potential e = ([], e)"
  by (simp add: setSource_def)

lemma onNotification_disposed: "disposed e \<Longrightarrow> onNotification i n e = ([], e)"
  by (simp add: onNotification_def)

lemma ngOnDestroy_cdAware:
  "cdAware (ngOnDestroy sourceSwitcher p) = dispose (cdAware p)"
  by (simp add: ngOnDestroy_def sourceSwitcher_def)

lemma perform_after_ngOnDestroy:
  "perform op (ngOnDestroy sourceSwitcher p) = ngOnDestroy sourceSwitcher p"
proof (cases op)
  case (Transform potential)
  then show ?thesis
    by (simp add: transform_def ngOnDestroy_def sourceSwitcher_def setSource_def dispose_def)
next
  case (Notify i n)
  then show ?thesis
    by (simp add: notify_def ngOnDestroy_def sourceSwitcher_def onNotification_def dispose_def)
next
  case NgOnDestroy
  then show ?thesis
    by (simp add: ngOnDestroy_def sourceSwitcher_def dispose_def)
qed

lemma performAll_after_ngOnDestroy:
  "performAll ops (ngOnDestroy sourceSwitcher p) = ngOnDestroy sourceSwitcher p"
  by (induction ops) (simp_all add: perform_after_ngOnDestroy)

text \<open>
  C9. Disposal, on the specified engine. \<^verbatim>\<open>ngOnDestroy\<close> releases the active subscription
  and touches nothing else of the pipe. After it, every sequence of operations (render
  passes with any argument, notifications of any source, a second destruction) leaves the
  pipe as it is: \<^verbatim>\<open>transform\<close> returns the value the pipe held, \<^verbatim>\<open>setSource\<close> and the
  notification handler invoke no callback, so no subscription is created, no render is
  requested and no error is reported. No operation of the model has a failing branch, so
  none is a thrown fault.
\<close>

theorem nothing_happens_after_ngOnDestroy:
  "activeSubscription (cdAware (ngOnDestroy sourceSwitcher p)) = None
   \<and> renderedValue (ngOnDestroy sourceSwitcher p) = renderedValue p
   \<and> renderCalls (ngOnDestroy sourceSwitcher p) = renderCalls p
   \<and> errorHandler (ngOnDestroy sourceSwitcher p) = errorHandler p
   \<and> performAll ops (ngOnDestroy sourceSwitcher p) = ngOnDestroy sourceSwitcher p
   \<and> transform sourceSwitcher potential (ngOnDestroy sourceSwitcher p)
       = (renderedValue p, ngOnDestroy sourceSwitcher p)
   \<and> setSource potential (cdAware (ngOnDestroy sourceSwitcher p))
       = ([], cdAware (ngOnDestroy sourceSwitcher p))
   \<and> onNotification i n (cdAware (ngOnDestroy sourceSwitcher p))
       = ([], cdAware (ngOnDestroy sourceSwitcher p))"
proof -
  have d: "disposed (cdAware (ngOnDestroy sourceSwitcher p))"
    by (simp add: ngOnDestroy_cdAware dispose_def)
  have t: "transform sourceSwitcher potential (ngOnDestroy sourceSwitcher p)
       = (renderedValue p, ngOnDestroy sourceSwitcher p)"
    by (simp add: transform_def ngOnDestroy_def sourceSwitcher_def setSource_def dispose_def)
  have f: "activeSubscription (cdAware (ngOnDestroy sourceSwitcher p)) = None
   \<and> renderedValue (ngOnDestroy sourceSwitcher p) = renderedValue p
   \<and> renderCalls (ngOnDestroy sourceSwitcher p) = renderCalls p
   \<and> errorHandler (ngOnDestroy sourceSwitcher p) = errorHandler p"
    by (simp add: ngOnDestroy_def sourceSwitcher_def dispose_def)
  from d f t show ?thesis
    by (simp add: performAll_after_ngOnDestroy setSource_disposed onNotification_disposed)
qed

theorem nothing_happens_after_ngOnDestroy_witness:
  "performAll
     [Transform (ObservableInput 2), Notify 2 (Next (JSNumber 9)), Notify 1 (Next (JSNumber 6)),
      Notify 1 (Error (JSString ''late'')), NgOnDestroy, Transform PNull]
     (ngOnDestroy sourceSwitcher
        (emit 1 [JSNumber 5]
           (snd (transform sourceSwitcher (ObservableInput 1)
                  (PushPipe_constructor sourceSwitcher createCdAware)))))
   = \<lparr>renderedValue = JSNumber 5,
      cdAware = \<lparr>activeSubscription = None, visibleValue = Value (JSNumber 5), disposed = True\<rparr>,
      renderCalls = 1, errorHandler = []\<rparr>
   \<and> fst (transform sourceSwitcher (ObservableInput 2)
       (ngOnDestroy sourceSwitcher
        (emit 1 [JSNumber 5]
           (snd (transform sourceSwitcher (ObservableInput 1)
                  (PushPipe_constructor sourceSwitcher createCdAware)))))) = JSNumber 5
   \<and> activeSubscription (cdAware (emit 1 [JSNumber 5]
           (snd (transform sourceSwitcher (ObservableInput 1)
                  (PushPipe_constructor sourceSwitcher createCdAware))))) = Some 1"
  using nothing_happens_after_ngOnDestroy
    [of "emit 1 [JSNumber 5]
           (snd (transform sourceSwitcher (ObservableInput 1)
                  (PushPipe_constructor sourceSwitcher createCdAware)))"
        "[Transform (ObservableInput 2), Notify 2 (Next (JSNumber 9)),
          Notify 1 (Next (JSNumber 6)), Notify 1 (Error (JSString ''late'')), NgOnDestroy,
          Transform PNull]"
        "ObservableInput 2" 1 Complete]
  by (simp add: transform_def sourceSwitcher_def PushPipe_constructor_def createCdAware_def
      setSource_def notify_def onNotification_def differs_def ngOnDestroy_def dispose_def
      updateViewContextObserver_next_def resetContextObserver_next_def
      del: performAll.simps)

end
